theory Spec2Isabelle
  imports Complex_Main "HOL-Library.AList"
begin

section \<open>JavaScript values\<close>

text \<open>
  The gateway is one JavaScript module, \<^verbatim>\<open>src/index.ts\<close>. Its strings are sequences of
  code units; \<^verbatim>\<open>length\<close> and \<^verbatim>\<open>substring\<close> count code units. The model writes a
  string as a \<^typ>\<open>string\<close>, one \<^typ>\<open>char\<close> per code unit.

  A number is either \<^verbatim>\<open>NaN\<close> or an integer: the numbers the module computes with are the
  result of \<^verbatim>\<open>parseInt\<close>, string lengths and the loop index of the emitter. The model
  keeps every integer exact. A double does so up to \<open>2\<^sup>5\<^sup>3\<close>, which no string length
  reaches; a chunk size beyond that is at least the length of every text, and the loop
  treats all such sizes alike (one slice holding the whole text).
\<close>

datatype jsnum = NaN | Num int

fun js_add :: "jsnum \<Rightarrow> jsnum \<Rightarrow> jsnum" where
  "js_add (Num a) (Num b) = Num (a + b)"
| "js_add _ _ = NaN"

fun js_less :: "jsnum \<Rightarrow> jsnum \<Rightarrow> bool" where
  "js_less (Num a) (Num b) = (a < b)"
| "js_less _ _ = False"

text \<open>Conversion of an index argument: \<^verbatim>\<open>NaN\<close> counts as 0.\<close>

fun to_integer :: "jsnum \<Rightarrow> int" where
  "to_integer NaN = 0"
| "to_integer (Num k) = k"

text \<open>
  \<^verbatim>\<open>String.prototype.substring(indexStart, indexEnd)\<close>: both indices are clamped to
  \<open>[0, length]\<close> and swapped when the first is the larger.
\<close>

definition substring :: "string \<Rightarrow> jsnum \<Rightarrow> jsnum \<Rightarrow> string" where
  "substring s indexStart indexEnd =
     (let len = int (length s);
          finalStart = min (max (to_integer indexStart) 0) len;
          finalEnd = min (max (to_integer indexEnd) 0) len;
          lo = min finalStart finalEnd;
          hi = max finalStart finalEnd
      in take (nat (hi - lo)) (drop (nat lo) s))"

text \<open>
  \<^verbatim>\<open>parseInt(string)\<close> without a radix: leading white space is dropped, then an optional
  sign, then an optional \<^verbatim>\<open>0x\<close> prefix that selects radix 16; the longest prefix of digits
  of the radix is the value, and no digit at all gives \<^verbatim>\<open>NaN\<close>. \<open>is_space\<close> holds the
  white space code units below 256.
\<close>

definition is_space :: "char \<Rightarrow> bool" where
  "is_space c = ((of_char c :: nat) \<in> {9, 10, 11, 12, 13, 32, 160})"

definition digit_value :: "char \<Rightarrow> nat option" where
  "digit_value c =
     (let k = (of_char c :: nat) in
      if 48 \<le> k \<and> k \<le> 57 then Some (k - 48)
      else if 97 \<le> k \<and> k \<le> 122 then Some (k - 87)
      else if 65 \<le> k \<and> k \<le> 90 then Some (k - 55)
      else None)"

definition is_digit :: "nat \<Rightarrow> char \<Rightarrow> bool" where
  "is_digit R c = (case digit_value c of None \<Rightarrow> False | Some d \<Rightarrow> d < R)"

definition parseInt :: "string \<Rightarrow> jsnum" where
  "parseInt inputString =
     (let S = dropWhile is_space inputString;
          sign = (if take 1 S = ''-'' then - 1 else (1 :: int));
          S1 = (if take 1 S = ''+'' \<or> take 1 S = ''-'' then drop 1 S else S);
          hex = (take 2 S1 = ''0x'' \<or> take 2 S1 = ''0X'');
          R = (if hex then 16 else (10 :: nat));
          S2 = (if hex then drop 2 S1 else S1);
          Z = takeWhile (is_digit R) S2
      in if Z = [] then NaN
         else Num (sign * int (foldl (\<lambda>acc c. acc * R + the (digit_value c)) 0 Z)))"

text \<open>Rendering of a non-negative integer in a template literal.\<close>

fun number_to_string :: "nat \<Rightarrow> string" where
  "number_to_string n =
     (let unit = char_of (48 + n mod 10)
      in if n div 10 = 0 then [unit] else number_to_string (n div 10) @ [unit])"

declare number_to_string.simps [simp del]

text \<open>
  A parsed JSON value. An object keeps its members in textual order. A number is kept as
  an integer: the module only tests numbers for being zero and passes them on.
\<close>

datatype json = JNull | JBool bool | JNum int | JStr string
  | JArr "json list" | JObj "(string \<times> json) list"

text \<open>An exception carries its \<^verbatim>\<open>message\<close>.\<close>

datatype exn = JsError (message: string)

fun truthy :: "json \<Rightarrow> bool" where
  "truthy JNull = False"
| "truthy (JBool b) = b"
| "truthy (JNum n) = (n \<noteq> 0)"
| "truthy (JStr s) = (s \<noteq> [])"
| "truthy (JArr xs) = True"
| "truthy (JObj kvs) = True"

text \<open>\<^verbatim>\<open>a || b\<close> where \<open>a\<close> may be \<^verbatim>\<open>undefined\<close> (\<open>None\<close>).\<close>

definition js_or :: "json option \<Rightarrow> json \<Rightarrow> json" where
  "js_or a b = (case a of None \<Rightarrow> b | Some v \<Rightarrow> if truthy v then v else b)"

text \<open>
  The \<^verbatim>\<open>length\<close> property of a value that is neither \<^verbatim>\<open>null\<close> nor \<^verbatim>\<open>undefined\<close>.
  When a key is repeated in an object, the last member is the one that is read.
\<close>

fun js_length :: "json \<Rightarrow> json option" where
  "js_length (JArr xs) = Some (JNum (int (length xs)))"
| "js_length (JStr s) = Some (JNum (int (length s)))"
| "js_length (JObj kvs) = map_of (rev kvs) ''length''"
| "js_length _ = None"

section \<open>Configuration\<close>

record config =
  PROJECT_NAME :: string
  PROJECT_VERSION :: string
  API_MASTER_KEY :: string
  UPSTREAM_URL :: string
  DEFAULT_MODEL :: string
  KNOWN_MODELS :: "string list"
  PSEUDO_STREAM_CHUNK_SIZE :: jsnum
  PSEUDO_STREAM_DELAY_MS :: jsnum

text \<open>\<^verbatim>\<open>process.env.X || d\<close>: an unset or empty variable gives the default.\<close>

definition env_or :: "string option \<Rightarrow> string \<Rightarrow> string" where
  "env_or v d = (case v of None \<Rightarrow> d | Some s \<Rightarrow> if s = [] then d else s)"

text \<open>
  The module builds \<^verbatim>\<open>CONFIG\<close> once, when it is loaded, and goes on to start the server:
  no value is checked in between.
\<close>

definition CONFIG :: "(string \<Rightarrow> string option) \<Rightarrow> config" where
  "CONFIG env =
     \<lparr> PROJECT_NAME = ''askaiquestions-2api-bun'',
       PROJECT_VERSION = ''2.0.0'',
       API_MASTER_KEY = env_or (env ''API_MASTER_KEY'') ''default-unsafe-key'',
       UPSTREAM_URL = env_or (env ''UPSTREAM_URL'')
         ''https://pjfuothbq9.execute-api.us-east-1.amazonaws.com/get-summary'',
       DEFAULT_MODEL = ''askai-default-model'',
       KNOWN_MODELS = [''askai-default-model''],
       PSEUDO_STREAM_CHUNK_SIZE = parseInt (env_or (env ''PSEUDO_STREAM_CHUNK_SIZE'') ''2''),
       PSEUDO_STREAM_DELAY_MS = parseInt (env_or (env ''PSEUDO_STREAM_DELAY_MS'') ''2'') \<rparr>"

section \<open>The host\<close>

text \<open>
  What the module takes from its runtime and from the network:
  \<^item> \<open>fault k\<close>: the exception thrown by the \<open>k\<close>-th call (from 0) of
    \<^verbatim>\<open>controller.enqueue\<close> on a stream, if that call throws;
  \<^item> \<open>close_fault k\<close>: the exception thrown by \<^verbatim>\<open>controller.close()\<close> when it is
    called after \<open>k\<close> calls of \<^verbatim>\<open>controller.enqueue\<close>, if it throws;
  \<^item> \<open>now k\<close>: \<^verbatim>\<open>Date.now()\<close> in milliseconds, read before the \<open>k\<close>-th call of
    \<^verbatim>\<open>controller.enqueue\<close> (and \<open>now 0\<close> outside a stream);
  \<^item> \<open>randomUUID\<close>: the result of \<^verbatim>\<open>crypto.randomUUID()\<close> for the request;
  \<^item> \<open>upstream\<close>: the outcome of the outbound \<^verbatim>\<open>fetch\<close>, for each request sent;
  \<^item> \<open>typeerror_msg p\<close>: the message of the \<^verbatim>\<open>TypeError\<close> raised by reading property
    \<open>p\<close> of \<^verbatim>\<open>null\<close>.
\<close>

record upstream_request =
  url :: string
  up_method :: string
  up_headers :: "(string \<times> string) list"
  up_body :: json

text \<open>
  The outbound call either rejects, or resolves to a response with a status, whose body
  is then read as text (\<^verbatim>\<open>text()\<close>) or parsed (\<^verbatim>\<open>json()\<close>); either reading may reject.
\<close>

datatype upstream_outcome =
    NetworkFailure exn
  | UpstreamResponse (up_status: nat) (up_text: "exn + string") (up_json: "exn + json")

record host =
  fault :: "nat \<Rightarrow> exn option"
  close_fault :: "nat \<Rightarrow> exn option"
  now :: "nat \<Rightarrow> nat"
  randomUUID :: string
  upstream :: "upstream_request \<Rightarrow> upstream_outcome"
  typeerror_msg :: "string \<Rightarrow> string"

text \<open>
  Reading one of the properties the module reads (\<^verbatim>\<open>stream\<close>, \<^verbatim>\<open>model\<close>,
  \<^verbatim>\<open>messages\<close>, \<^verbatim>\<open>summary\<close>) from a parsed JSON value: \<^verbatim>\<open>null\<close> throws, an object
  gives its member or \<^verbatim>\<open>undefined\<close>, every other value gives \<^verbatim>\<open>undefined\<close>.
\<close>

fun get_prop :: "host \<Rightarrow> json \<Rightarrow> string \<Rightarrow> exn + json option" where
  "get_prop h JNull p = Inl (JsError (typeerror_msg h p))"
| "get_prop h (JObj kvs) p = Inr (map_of (rev kvs) p)"
| "get_prop h _ p = Inr None"

section \<open>The pseudo-stream emitter\<close>

text \<open>
  An event of the stream before it is serialised: a chunk object (sent as
  \<^verbatim>\<open>data: <json>\<close> and a blank line) or the literal \<^verbatim>\<open>data: [DONE]\<close> event.
  \<open>delta_content = None\<close> is the empty delta \<^verbatim>\<open>{}\<close>; \<open>finish_reason = None\<close> is
  \<^verbatim>\<open>null\<close>; \<open>created = None\<close> is a chunk without that field.
\<close>

datatype sse_event =
    Chunk (chunk_id: string) (created: "nat option") (chunk_model: json)
          (delta_content: "string option") (finish_reason: "string option")
  | DoneMarker

text \<open>The stream controller: what has been enqueued, and whether it has been closed.\<close>

record controller =
  queue :: "sse_event list"
  is_closed :: bool
  calls :: nat

definition enqueue :: "host \<Rightarrow> controller \<Rightarrow> sse_event \<Rightarrow> exn option \<times> controller" where
  "enqueue h ctl ev =
     (case fault h (calls ctl) of
        Some e \<Rightarrow> (Some e, ctl\<lparr>calls := Suc (calls ctl)\<rparr>)
      | None \<Rightarrow> (None, ctl\<lparr>queue := queue ctl @ [ev], calls := Suc (calls ctl)\<rparr>))"

text \<open>
  The \<^verbatim>\<open>for\<close> loop of \<^verbatim>\<open>createPseudoStream\<close>, from index \<open>i\<close>. The result is
  \<open>None\<close> when the loop runs forever; otherwise the exception that left the loop, if
  any, and the controller. The pause between two chunks changes no value and is left out.
\<close>

partial_function (option) slice_loop ::
  "host \<Rightarrow> jsnum \<Rightarrow> string \<Rightarrow> string \<Rightarrow> json \<Rightarrow> jsnum \<Rightarrow> controller
     \<Rightarrow> (exn option \<times> controller) option" where
  "slice_loop h chunkSize fullText requestId model i ctl =
     (if js_less i (Num (int (length fullText))) then
        (let contentChunk = substring fullText i (js_add i chunkSize);
             chunk = Chunk requestId (Some (now h (calls ctl) div 1000)) model
                       (Some contentChunk) None
         in case enqueue h ctl chunk of
              (Some e, ctl') \<Rightarrow> Some (Some e, ctl')
            | (None, ctl') \<Rightarrow>
                slice_loop h chunkSize fullText requestId model (js_add i chunkSize) ctl')
      else Some (None, ctl))"

declare slice_loop.simps [code]

text \<open>The \<^verbatim>\<open>try\<close> block: the loop, the final chunk, the termination marker.\<close>

definition try_block ::
  "host \<Rightarrow> jsnum \<Rightarrow> string \<Rightarrow> string \<Rightarrow> json \<Rightarrow> controller
     \<Rightarrow> (exn option \<times> controller) option" where
  "try_block h chunkSize fullText requestId model ctl =
     (case slice_loop h chunkSize fullText requestId model (Num 0) ctl of
        None \<Rightarrow> None
      | Some (Some e, ctl1) \<Rightarrow> Some (Some e, ctl1)
      | Some (None, ctl1) \<Rightarrow>
          (let finalChunk = Chunk requestId (Some (now h (calls ctl1) div 1000)) model
                              None (Some ''stop'')
           in case enqueue h ctl1 finalChunk of
                (Some e, ctl2) \<Rightarrow> Some (Some e, ctl2)
              | (None, ctl2) \<Rightarrow> Some (enqueue h ctl2 DoneMarker)))"

definition errorChunk :: "string \<Rightarrow> json \<Rightarrow> sse_event" where
  "errorChunk requestId model =
     Chunk requestId None model (Some (CHR 0x0A # ''[Stream Error]'')) (Some ''stop'')"

text \<open>
  \<^verbatim>\<open>controller.close()\<close> in the \<^verbatim>\<open>finally\<close> block, entered with the exception that is
  pending, if any: when \<^verbatim>\<open>close\<close> throws, its exception replaces the pending one.
\<close>

definition close_finally :: "host \<Rightarrow> exn option \<Rightarrow> controller \<Rightarrow> exn option \<times> controller" where
  "close_finally h pending ctl =
     (case close_fault h (calls ctl) of
        Some e \<Rightarrow> (Some e, ctl)
      | None \<Rightarrow> (pending, ctl\<lparr>is_closed := True\<rparr>))"

text \<open>
  \<^verbatim>\<open>createPseudoStream\<close>: the \<^verbatim>\<open>start\<close> callback of the stream, run on a fresh
  controller. \<^verbatim>\<open>catch\<close> enqueues the error chunk; \<^verbatim>\<open>finally\<close> closes the controller.
  The result is \<open>None\<close> when \<^verbatim>\<open>start\<close> never finishes; otherwise the exception that
  \<^verbatim>\<open>start\<close> ends with, if any, and the final controller.
\<close>

definition createPseudoStream ::
  "host \<Rightarrow> config \<Rightarrow> string \<Rightarrow> string \<Rightarrow> json \<Rightarrow> (exn option \<times> controller) option" where
  "createPseudoStream h cfg fullText requestId model =
     (let chunkSize = PSEUDO_STREAM_CHUNK_SIZE cfg;
          ctl0 = \<lparr> queue = [], is_closed = False, calls = 0 \<rparr>
      in case try_block h chunkSize fullText requestId model ctl0 of
           None \<Rightarrow> None
         | Some (None, ctl1) \<Rightarrow> Some (close_finally h None ctl1)
         | Some (Some e, ctl1) \<Rightarrow>
             (case enqueue h ctl1 (errorChunk requestId model) of
                (exc, ctl2) \<Rightarrow> Some (close_finally h exc ctl2)))"

section \<open>The gateway dispatcher\<close>

text \<open>
  An inbound request as the handlers read it: the method, the path of its URL, the value
  of \<^verbatim>\<open>headers.get('Authorization')\<close> (\<open>None\<close> for \<^verbatim>\<open>null\<close>) and the result of
  \<^verbatim>\<open>request.json()\<close> (\<open>None\<close> when it rejects).
\<close>

record request =
  req_method :: string
  pathname :: string
  authorization :: "string option"
  body_json :: "json option"

text \<open>
  The body of a response before it is serialised: none; the health object (status,
  service, version); the error envelope (message, type, code); the model list (id, object,
  created, owned_by of each entry); the completion object (id, created, model, content of
  the one choice); a stream. A streamed body holds the run of the emitter that feeds it,
  \<open>None\<close> when that run never finishes.
\<close>

datatype body =
    NoBody
  | HealthBody string string string
  | ErrorBody (err_message: string) (err_type: string) (err_code: string)
  | ModelsBody "(string \<times> string \<times> nat \<times> string) list"
  | CompletionBody string nat json string
  | StreamBody "(exn option \<times> controller) option"

record response =
  status :: nat
  headers :: "(string \<times> string) list"
  body :: body

text \<open>\<^verbatim>\<open>headers.set(k, v)\<close> is \<^const>\<open>AList.update\<close>; the module always spells a name the same way.\<close>

definition errorResponse ::
  "string \<Rightarrow> nat \<Rightarrow> string \<Rightarrow> (string \<times> string) list \<Rightarrow> response" where
  "errorResponse msg st code hdrs =
     \<lparr> status = st,
       headers = AList.update ''Content-Type'' ''application/json'' hdrs,
       body = ErrorBody msg ''api_error'' code \<rparr>"

definition handleModels :: "host \<Rightarrow> config \<Rightarrow> (string \<times> string) list \<Rightarrow> response" where
  "handleModels h cfg baseHeaders =
     \<lparr> status = 200,
       headers = baseHeaders,
       body = ModelsBody
         (map (\<lambda>name. (name, ''model'', now h 0 div 1000, ''askai-project''))
              (KNOWN_MODELS cfg)) \<rparr>"

definition upstreamHeaders :: "string \<Rightarrow> (string \<times> string) list" where
  "upstreamHeaders requestId =
     [(''accept'', ''*/*''),
      (''content-type'', ''application/json''),
      (''origin'', ''https://askaiquestions.net''),
      (''referer'', ''https://askaiquestions.net/''),
      (''user-agent'', ''Mozilla/5.0 (compatible; Bun/1.0; +https://bun.sh)''),
      (''X-Request-ID'', requestId)]"

definition upstreamPayload :: "json \<Rightarrow> json" where
  "upstreamPayload messages =
     JObj [(''website'', JStr ''ask-ai-questions''), (''messages'', messages)]"

text \<open>The arguments of the outbound \<^verbatim>\<open>fetch\<close>; the payload is sent as JSON text.\<close>

definition upstreamCall :: "config \<Rightarrow> string \<Rightarrow> json \<Rightarrow> upstream_request" where
  "upstreamCall cfg requestId payload =
     \<lparr> url = UPSTREAM_URL cfg, up_method = ''POST'',
       up_headers = upstreamHeaders requestId,
       up_body = payload \<rparr>"

text \<open>
  A handler returns its response, or the exception it ends with, and the list of the
  requests it has sent upstream.
\<close>

type_synonym outcome = "(exn + response) \<times> upstream_request list"

text \<open>The body of the \<^verbatim>\<open>try\<close> block of \<^verbatim>\<open>handleChatCompletions\<close>.\<close>

definition chat_try ::
  "host \<Rightarrow> config \<Rightarrow> json \<Rightarrow> json \<Rightarrow> json \<Rightarrow> string \<Rightarrow> (string \<times> string) list \<Rightarrow> outcome" where
  "chat_try h cfg requestData isStream model requestId baseHeaders =
     (case get_prop h requestData ''messages'' of
        Inl e \<Rightarrow> (Inl e, [])
      | Inr m \<Rightarrow>
         (let messages = js_or m (JArr [])
          in if js_length messages = Some (JNum 0) then
               (Inr (errorResponse ''Missing 'messages' field'' 400
                       ''invalid_request_error'' baseHeaders), [])
             else
               (let sent = upstreamCall cfg requestId (upstreamPayload messages)
                in case upstream h sent of
                     NetworkFailure e \<Rightarrow> (Inl e, [sent])
                   | UpstreamResponse st txt js \<Rightarrow>
                       if \<not> (200 \<le> st \<and> st \<le> 299) then
                         (case txt of
                            Inl e \<Rightarrow> (Inl e, [sent])
                          | Inr errorText \<Rightarrow>
                              (Inr (errorResponse (''Upstream error: '' @ errorText) 502
                                      (''upstream_'' @ number_to_string st) baseHeaders), [sent]))
                       else
                         (case js of
                            Inl e \<Rightarrow> (Inl e, [sent])
                          | Inr upstreamData \<Rightarrow>
                             (case get_prop h upstreamData ''summary'' of
                                Inl e \<Rightarrow> (Inl e, [sent])
                              | Inr (Some (JStr summary)) \<Rightarrow>
                                  if truthy isStream then
                                    (Inr \<lparr> status = 200,
                                           headers =
                                             AList.update ''Connection'' ''keep-alive''
                                               (AList.update ''Cache-Control'' ''no-cache''
                                                 (AList.update ''Content-Type''
                                                    ''text/event-stream'' baseHeaders)),
                                           body = StreamBody
                                             (createPseudoStream h cfg summary requestId model) \<rparr>,
                                     [sent])
                                  else
                                    (Inr \<lparr> status = 200,
                                           headers = baseHeaders,
                                           body = CompletionBody requestId (now h 0 div 1000)
                                                    model summary \<rparr>,
                                     [sent])
                              | Inr _ \<Rightarrow>
                                  (Inl (JsError ''Upstream response missing 'summary' field.''),
                                   [sent]))))))"

definition handleChatCompletions ::
  "host \<Rightarrow> config \<Rightarrow> request \<Rightarrow> string \<Rightarrow> (string \<times> string) list \<Rightarrow> outcome" where
  "handleChatCompletions h cfg req requestId baseHeaders =
     (case body_json req of
        None \<Rightarrow>
          (Inr (errorResponse ''Invalid JSON body'' 400 ''invalid_request_error'' baseHeaders), [])
      | Some requestData \<Rightarrow>
         (case get_prop h requestData ''stream'' of
            Inl e \<Rightarrow> (Inl e, [])
          | Inr s \<Rightarrow>
             (case get_prop h requestData ''model'' of
                Inl e \<Rightarrow> (Inl e, [])
              | Inr md \<Rightarrow>
                 (let isStream = js_or s (JBool False);
                      model = js_or md (JStr (DEFAULT_MODEL cfg))
                  in case chat_try h cfg requestData isStream model requestId baseHeaders of
                       (Inl error, sent) \<Rightarrow>
                         (Inr (errorResponse (''Processing failed: '' @ message error) 502
                                 ''api_error'' baseHeaders), sent)
                     | (Inr r, sent) \<Rightarrow> (Inr r, sent)))))"

definition responseHeaders_init :: "string \<Rightarrow> (string \<times> string) list" where
  "responseHeaders_init requestId =
     [(''Content-Type'', ''application/json''),
      (''X-Request-ID'', requestId),
      (''Access-Control-Allow-Origin'', ''*''),
      (''Access-Control-Allow-Headers'', ''Content-Type, Authorization'')]"

definition handleApiProxy :: "host \<Rightarrow> config \<Rightarrow> request \<Rightarrow> outcome" where
  "handleApiProxy h cfg req =
     (let requestId = randomUUID h;
          responseHeaders = responseHeaders_init requestId
      in if req_method req = ''OPTIONS'' then
           (Inr \<lparr> status = 204, headers = responseHeaders, body = NoBody \<rparr>, [])
         else if (case authorization req of
                    None \<Rightarrow> True
                  | Some authHeader \<Rightarrow>
                      authHeader = [] \<or> take 7 authHeader \<noteq> ''Bearer ''
                      \<or> drop 7 authHeader \<noteq> API_MASTER_KEY cfg) then
           (Inr (errorResponse ''Unauthorized'' 401 ''invalid_api_key'' responseHeaders), [])
         else if pathname req = ''/v1/models'' \<and> req_method req = ''GET'' then
           (Inr (handleModels h cfg responseHeaders), [])
         else if pathname req = ''/v1/chat/completions'' \<and> req_method req = ''POST'' then
           handleChatCompletions h cfg req requestId responseHeaders
         else
           (Inr (errorResponse
                   (''Method '' @ req_method req @ '' not allowed for '' @ pathname req)
                   405 ''method_not_allowed'' responseHeaders), []))"

text \<open>
  The \<^verbatim>\<open>fetch\<close> handler given to \<^verbatim>\<open>Bun.serve\<close>: whatever \<^verbatim>\<open>handleApiProxy\<close> ends with
  is caught and answered with status 500.
\<close>

definition serve_fetch :: "host \<Rightarrow> config \<Rightarrow> request \<Rightarrow> response \<times> upstream_request list" where
  "serve_fetch h cfg req =
     (if take 4 (pathname req) = ''/v1/'' then
        (case handleApiProxy h cfg req of
           (Inr r, sent) \<Rightarrow> (r, sent)
         | (Inl error, sent) \<Rightarrow>
             (errorResponse (''Internal Server Error: '' @ message error) 500
                ''internal_server_error'' [], sent))
      else if pathname req = ''/'' then
        (\<lparr> status = 200,
           headers = [(''Content-Type'', ''application/json'')],
           body = HealthBody ''ok'' (PROJECT_NAME cfg) (PROJECT_VERSION cfg) \<rparr>, [])
      else
        (errorResponse (''Path not found: '' @ pathname req) 404 ''not_found'' [], []))"

section \<open>Observations and fixtures\<close>

text \<open>
  What a client re-assembles from a sequence of events: the \<^verbatim>\<open>delta.content\<close> fields of
  the chunks that carry one, in order.
\<close>

fun contents :: "sse_event list \<Rightarrow> string list" where
  "contents [] = []"
| "contents (Chunk rid ts m (Some s) fr # es) = s # contents es"
| "contents (e # es) = contents es"

text \<open>A host on which nothing fails but the network, and one whose second \<^verbatim>\<open>enqueue\<close> throws.\<close>

definition quiet_host :: host where
  "quiet_host =
     \<lparr> fault = (\<lambda>k. None), close_fault = (\<lambda>k. None), now = (\<lambda>k. 1700000000000),
       randomUUID = ''req-1'',
       upstream = (\<lambda>r. NetworkFailure (JsError ''connection refused'')),
       typeerror_msg = (\<lambda>p. ''null is not an object'') \<rparr>"

definition faulty_host :: host where
  "faulty_host =
     quiet_host\<lparr>fault := (\<lambda>k. if k = 1 then Some (JsError ''Invalid state'') else None)\<rparr>"

text \<open>Hosts whose backend answers with a given status and text, or with a body without \<^verbatim>\<open>summary\<close>.\<close>

definition status_host :: "nat \<Rightarrow> string \<Rightarrow> host" where
  "status_host st txt =
     quiet_host\<lparr>upstream :=
       (\<lambda>r. UpstreamResponse st (Inr txt) (Inl (JsError ''Unexpected token'')))\<rparr>"

definition contract_host :: host where
  "contract_host =
     quiet_host\<lparr>upstream := (\<lambda>r. UpstreamResponse 200 (Inr ''{}'') (Inr (JObj [])))\<rparr>"

text \<open>An authenticated chat request under the default configuration, and a body with one message.\<close>

definition chat_request :: "json option \<Rightarrow> request" where
  "chat_request b =
     \<lparr> req_method = ''POST'', pathname = ''/v1/chat/completions'',
       authorization = Some ''Bearer default-unsafe-key'', body_json = b \<rparr>"

definition hello :: json where
  "hello =
     JObj [(''messages'', JArr [JObj [(''role'', JStr ''user''), (''content'', JStr ''hi'')]]),
           (''stream'', JBool True)]"

section \<open>The slicing loop\<close>

lemmas config_eval = CONFIG_def env_or_def parseInt_def is_space_def is_digit_def digit_value_def

lemmas emit_eval = createPseudoStream_def try_block_def slice_loop.simps enqueue_def
  close_finally_def substring_def errorChunk_def Let_def

lemma contents_append: "contents (xs @ ys) = contents xs @ contents ys"
  by (induction xs rule: contents.induct) simp_all

lemma contents_terminal:
  "contents (es @ [Chunk rid ts m None fr, DoneMarker]) = contents es"
  by (simp add: contents_append)

text \<open>Inside the text, a slice is the next \<open>c\<close> code units, fewer at the end.\<close>

lemma substring_slice:
  assumes "0 \<le> i" "i < int (length t)" "1 \<le> c"
  shows "substring t (Num i) (js_add (Num i) (Num c)) = take (nat c) (drop (nat i) t)"
proof -
  let ?n = "int (length t)"
  have s: "min (max i 0) ?n = i" using assms by simp
  have e: "min (max (i + c) 0) ?n = min (i + c) ?n" using assms by simp
  have lo: "min i (min (i + c) ?n) = i" using assms by simp
  have hi: "max i (min (i + c) ?n) = min (i + c) ?n" using assms by simp
  have "substring t (Num i) (js_add (Num i) (Num c)) =
          take (nat (min (i + c) ?n - i)) (drop (nat i) t)"
    unfolding substring_def Let_def js_add.simps to_integer.simps s e lo hi ..
  also have "\<dots> = take (nat c) (drop (nat i) t)"
  proof (cases "i + c \<le> ?n")
    case True
    then show ?thesis by simp
  next
    case False
    then have "length (drop (nat i) t) \<le> nat c"
      "length (drop (nat i) t) \<le> nat (min (i + c) ?n - i)"
      using assms by simp_all
    then show ?thesis by simp
  qed
  finally show ?thesis .
qed

lemma enqueue_ok:
  "fault h (calls ctl) = None \<Longrightarrow>
   enqueue h ctl ev = (None, ctl\<lparr>queue := queue ctl @ [ev], calls := Suc (calls ctl)\<rparr>)"
  by (simp add: enqueue_def)

text \<open>Counting the slices: one more for each step of the index.\<close>

lemma ceil_step:
  assumes "0 \<le> i" "i < n" "1 \<le> (c::int)"
  shows "nat ((n - i + c - 1) div c) = Suc (nat ((n - (i + c) + c - 1) div c))"
proof -
  have "n - i + c - 1 = (n - i - 1) + c" by simp
  then have "(n - i + c - 1) div c = (n - i - 1) div c + 1"
    using assms by (simp only: div_add_self2)
  moreover have "0 \<le> (n - i - 1) div c"
    using assms by (simp add: pos_imp_zdiv_nonneg_iff)
  moreover have "n - (i + c) + c - 1 = n - i - 1" by simp
  ultimately show ?thesis by simp
qed

lemma ceil_zero:
  assumes "n \<le> i" "1 \<le> (c::int)"
  shows "nat ((n - i + c - 1) div c) = 0"
proof -
  have "(n - i + c - 1) div c \<le> (c - 1) div c"
    using assms by (intro zdiv_mono1) simp_all
  also have "(c - 1) div c = 0"
    using assms by simp
  finally show ?thesis by simp
qed

lemma ceil_div_int:
  assumes "0 < (c::int)"
  shows "(n + c - 1) div c = - ((- n) div c)"
proof -
  have c0: "c \<noteq> 0" using assms by simp
  have "n + c - 1 = (n mod c + c - 1) + c * (n div c)"
    by (simp add: algebra_simps)
  then have split: "(n + c - 1) div c = n div c + (n mod c + c - 1) div c"
    by (simp only: div_mult_self2 [OF c0])
  show ?thesis
  proof (cases "n mod c = 0")
    case True
    have "(c - 1) div c = 0" using assms by (intro div_pos_pos_trivial) simp_all
    with split True show ?thesis using c0 by (simp add: zdiv_zminus1_eq_if)
  next
    case False
    have "0 \<le> n mod c - 1" "n mod c - 1 < c"
      using False assms pos_mod_sign [of c n] pos_mod_bound [of c n] by linarith+
    then have z: "(n mod c - 1) div c = 0" by (intro div_pos_pos_trivial)
    have "n mod c + c - 1 = (n mod c - 1) + c * 1" by simp
    then have "(n mod c + c - 1) div c = 1 + (n mod c - 1) div c"
      by (simp only: div_mult_self2 [OF c0])
    with split z False show ?thesis using c0 by (simp add: zdiv_zminus1_eq_if)
  qed
qed

lemma ceil_div_real:
  assumes "0 < (c::int)"
  shows "(n + c - 1) div c = \<lceil>real_of_int n / real_of_int c\<rceil>"
  using ceil_div_int [OF assms] by (simp add: ceiling_divide_eq_div)

text \<open>
  With a chunk size of at least 1 and no failing \<^verbatim>\<open>enqueue\<close>, the loop started at index
  \<open>i\<close> returns, having appended content chunks that spell the rest of the text.
\<close>

lemma slice_loop_run:
  assumes c: "1 \<le> c" and nf: "\<And>k. fault h k = None"
  shows "0 \<le> i \<Longrightarrow> \<exists>es. slice_loop h (Num c) t rid m (Num i) ctl =
           Some (None, ctl\<lparr>queue := queue ctl @ es, calls := calls ctl + length es\<rparr>)
         \<and> (\<forall>e\<in>set es. \<exists>ts s. e = Chunk rid (Some ts) m (Some s) None)
         \<and> concat (contents es) = drop (nat i) t
         \<and> length (contents es) = nat ((int (length t) - i + c - 1) div c)"
proof (induction "nat (int (length t) - i)" arbitrary: i ctl rule: less_induct)
  case less
  show ?case
  proof (cases "i < int (length t)")
    case False
    then have "nat ((int (length t) - i + c - 1) div c) = 0"
      using c by (intro ceil_zero) simp_all
    with False show ?thesis
      by (subst slice_loop.simps) (simp add: exI [of _ "[]"])
  next
    case True
    let ?ev = "Chunk rid (Some (now h (calls ctl) div 1000)) m
                 (Some (take (nat c) (drop (nat i) t))) None"
    let ?ctl = "ctl\<lparr>queue := queue ctl @ [?ev], calls := Suc (calls ctl)\<rparr>"
    have "nat (int (length t) - (i + c)) < nat (int (length t) - i)"
      using True c by simp
    moreover have "0 \<le> i + c" using less.prems c by simp
    ultimately obtain es where
      run: "slice_loop h (Num c) t rid m (Num (i + c)) ?ctl =
             Some (None, ?ctl\<lparr>queue := queue ?ctl @ es, calls := calls ?ctl + length es\<rparr>)"
      and shape: "\<forall>e\<in>set es. \<exists>ts s. e = Chunk rid (Some ts) m (Some s) None"
      and cat: "concat (contents es) = drop (nat (i + c)) t"
      and len: "length (contents es) = nat ((int (length t) - (i + c) + c - 1) div c)"
      using less.hyps [of "i + c" ?ctl] by blast
    have step: "slice_loop h (Num c) t rid m (Num i) ctl =
                  slice_loop h (Num c) t rid m (Num (i + c)) ?ctl"
      using True less.prems c
      by (subst slice_loop.simps)
         (simp add: substring_slice [simplified] enqueue_ok [OF nf] Let_def)
    have "take (nat c) (drop (nat i) t) @ drop (nat (i + c)) t = drop (nat i) t"
      using less.prems c
      by (metis add.commute append_take_drop_id drop_drop nat_add_distrib order_trans zero_le_one)
    then have "concat (contents (?ev # es)) = drop (nat i) t"
      using cat by simp
    moreover have "length (contents (?ev # es)) = nat ((int (length t) - i + c - 1) div c)"
      using len ceil_step [OF less.prems True c] by simp
    moreover have "\<forall>e\<in>set (?ev # es). \<exists>ts s. e = Chunk rid (Some ts) m (Some s) None"
      using shape by simp
    moreover have "slice_loop h (Num c) t rid m (Num i) ctl =
        Some (None, ctl\<lparr>queue := queue ctl @ (?ev # es),
                          calls := calls ctl + length (?ev # es)\<rparr>)"
      using step run by simp
    ultimately show ?thesis by blast
  qed
qed

text \<open>With a chunk size of at least 1 the loop returns, whatever fails.\<close>

lemma slice_loop_returns:
  assumes c: "1 \<le> c"
  shows "\<exists>r. slice_loop h (Num c) t rid m (Num i) ctl = Some r"
proof (induction "nat (int (length t) - i)" arbitrary: i ctl rule: less_induct)
  case less
  show ?case
  proof (cases "i < int (length t)")
    case False
    then show ?thesis by (subst slice_loop.simps) simp
  next
    case True
    then have "nat (int (length t) - (i + c)) < nat (int (length t) - i)"
      using c by simp
    then have "\<And>ctl'. \<exists>r. slice_loop h (Num c) t rid m (Num (i + c)) ctl' = Some r"
      using less.hyps by blast
    then show ?thesis
      using True by (subst slice_loop.simps) (simp add: Let_def split: prod.split option.split)
  qed
qed

text \<open>
  A loop that returns did not start in the state that makes no progress: no failing
  \<^verbatim>\<open>enqueue\<close>, a non-empty text, a chunk size and an index that are both at most 0.
\<close>

lemma slice_loop_some_progress:
  assumes "slice_loop h cs t rid m j ctl = Some y"
  shows "\<not> ((\<forall>k. fault h k = None) \<and> t \<noteq> []
            \<and> (\<exists>c i. cs = Num c \<and> c \<le> 0 \<and> j = Num i \<and> i \<le> 0))"
proof (rule slice_loop.raw_induct
    [where P = "\<lambda>h cs t rid m j ctl y. \<not> ((\<forall>k. fault h k = None) \<and> t \<noteq> []
                  \<and> (\<exists>c i. cs = Num c \<and> c \<le> 0 \<and> j = Num i \<and> i \<le> 0))", OF _ assms])
  fix loop h chunkSize fullText requestId model i ctl r
  assume IH: "\<And>h cs t rid m j ctl y. loop h cs t rid m j ctl = Some y \<Longrightarrow>
                \<not> ((\<forall>k. fault h k = None) \<and> t \<noteq> []
                  \<and> (\<exists>c i. cs = Num c \<and> c \<le> 0 \<and> j = Num i \<and> i \<le> 0))"
    and body: "(if js_less i (Num (int (length fullText))) then
        (let contentChunk = substring fullText i (js_add i chunkSize);
             chunk = Chunk requestId (Some (now h (calls ctl) div 1000)) model
                       (Some contentChunk) None
         in case enqueue h ctl chunk of
              (Some e, ctl') \<Rightarrow> Some (Some e, ctl')
            | (None, ctl') \<Rightarrow> loop h chunkSize fullText requestId model (js_add i chunkSize) ctl')
      else Some (None, ctl)) = Some r"
  show "\<not> ((\<forall>k. fault h k = None) \<and> fullText \<noteq> []
            \<and> (\<exists>c' i'. chunkSize = Num c' \<and> c' \<le> 0 \<and> i = Num i' \<and> i' \<le> 0))"
  proof
    assume a: "(\<forall>k. fault h k = None) \<and> fullText \<noteq> []
                 \<and> (\<exists>c' i'. chunkSize = Num c' \<and> c' \<le> 0 \<and> i = Num i' \<and> i' \<le> 0)"
    then obtain c' i' where ci: "chunkSize = Num c'" "c' \<le> 0" "i = Num i'" "i' \<le> 0"
      by blast
    have "0 < length fullText" using a by simp
    then have "i' < int (length fullText)" using ci(4) by linarith
    then have lt: "js_less i (Num (int (length fullText)))"
      using ci(3) by simp
    let ?ev = "Chunk requestId (Some (now h (calls ctl) div 1000)) model
                 (Some (substring fullText i (js_add i chunkSize))) None"
    have "loop h chunkSize fullText requestId model (js_add i chunkSize)
            (ctl\<lparr>queue := queue ctl @ [?ev], calls := Suc (calls ctl)\<rparr>) = Some r"
      using body lt a by (simp add: Let_def enqueue_def)
    from IH [OF this] show False
      using a ci by simp
  qed
qed

lemma slice_loop_forever:
  assumes "\<And>k. fault h k = None" "c \<le> 0" "t \<noteq> []" "i \<le> 0"
  shows "slice_loop h (Num c) t rid m (Num i) ctl = None"
proof (cases "slice_loop h (Num c) t rid m (Num i) ctl")
  case None
  then show ?thesis .
next
  case (Some y)
  from slice_loop_some_progress [OF this] assms show ?thesis by simp
qed

text \<open>The loop never enqueues the termination marker.\<close>

lemma slice_loop_queue_done:
  assumes "slice_loop h cs t rid m j ctl = Some y"
  shows "DoneMarker \<notin> set (queue ctl) \<longrightarrow> DoneMarker \<notin> set (queue (snd y))"
proof (rule slice_loop.raw_induct
    [where P = "\<lambda>h cs t rid m j ctl y.
                  DoneMarker \<notin> set (queue ctl) \<longrightarrow> DoneMarker \<notin> set (queue (snd y))",
     OF _ assms])
  fix loop h chunkSize fullText requestId model i ctl r
  assume IH: "\<And>h cs t rid m j ctl y. loop h cs t rid m j ctl = Some y \<Longrightarrow>
                DoneMarker \<notin> set (queue ctl) \<longrightarrow> DoneMarker \<notin> set (queue (snd y))"
    and body: "(if js_less i (Num (int (length fullText))) then
        (let contentChunk = substring fullText i (js_add i chunkSize);
             chunk = Chunk requestId (Some (now h (calls ctl) div 1000)) model
                       (Some contentChunk) None
         in case enqueue h ctl chunk of
              (Some e, ctl') \<Rightarrow> Some (Some e, ctl')
            | (None, ctl') \<Rightarrow> loop h chunkSize fullText requestId model (js_add i chunkSize) ctl')
      else Some (None, ctl)) = Some r"
  show "DoneMarker \<notin> set (queue ctl) \<longrightarrow> DoneMarker \<notin> set (queue (snd r))"
  proof (cases "js_less i (Num (int (length fullText)))")
    case False
    with body show ?thesis by auto
  next
    case True
    show ?thesis
    proof (cases "fault h (calls ctl)")
      case (Some e)
      with body True show ?thesis by (auto simp: Let_def enqueue_def)
    next
      case None
      let ?ev = "Chunk requestId (Some (now h (calls ctl) div 1000)) model
                   (Some (substring fullText i (js_add i chunkSize))) None"
      have "loop h chunkSize fullText requestId model (js_add i chunkSize)
              (ctl\<lparr>queue := queue ctl @ [?ev], calls := Suc (calls ctl)\<rparr>) = Some r"
        using body True None by (simp add: Let_def enqueue_def)
      from IH [OF this] show ?thesis by simp
    qed
  qed
qed

section \<open>The emitter\<close>

text \<open>The whole run on the path where nothing fails.\<close>

lemma create_run:
  assumes cs: "PSEUDO_STREAM_CHUNK_SIZE cfg = Num c" and c: "1 \<le> c"
    and nf: "\<And>k. fault h k = None" and nc: "\<And>k. close_fault h k = None"
  shows "\<exists>es ts. createPseudoStream h cfg T rid m =
           Some (None, \<lparr>queue = es @ [Chunk rid (Some ts) m None (Some ''stop''), DoneMarker],
                        is_closed = True, calls = length es + 2\<rparr>)
         \<and> (\<forall>e\<in>set es. \<exists>t s. e = Chunk rid (Some t) m (Some s) None)
         \<and> concat (contents es) = T
         \<and> length (contents es) = nat ((int (length T) + c - 1) div c)"
proof -
  let ?ctl0 = "\<lparr>queue = [], is_closed = False, calls = 0\<rparr>"
  obtain es where
    run: "slice_loop h (Num c) T rid m (Num 0) ?ctl0 =
            Some (None, ?ctl0\<lparr>queue := queue ?ctl0 @ es, calls := calls ?ctl0 + length es\<rparr>)"
    and shape: "\<forall>e\<in>set es. \<exists>ts s. e = Chunk rid (Some ts) m (Some s) None"
    and cat: "concat (contents es) = drop (nat 0) T"
    and len: "length (contents es) = nat ((int (length T) - 0 + c - 1) div c)"
    using slice_loop_run [OF c nf, of 0 T rid m ?ctl0] by auto
  have "createPseudoStream h cfg T rid m =
          Some (None, \<lparr>queue = es @ [Chunk rid (Some (now h (length es) div 1000)) m None
                                        (Some ''stop''), DoneMarker],
                        is_closed = True, calls = length es + 2\<rparr>)"
    using run
    by (simp add: createPseudoStream_def try_block_def cs enqueue_def close_finally_def nf nc Let_def)
  with shape cat len show ?thesis by auto
qed

text \<open>
  C1. For every text \<open>T\<close> (empty or not) and every configured chunk size \<open>C \<ge> 1\<close>, on a
  host where no call fails, the emitter returns, the \<^verbatim>\<open>delta.content\<close> fields of the
  emitted chunks concatenated in emission order are exactly \<open>T\<close>, and the number of
  content-bearing chunks is the ceiling of \<open>length T / C\<close>.
\<close>

theorem emitter_reassembles_text:
  assumes "PSEUDO_STREAM_CHUNK_SIZE cfg = Num (int C)" and "1 \<le> C"
    and "\<And>k. fault h k = None" and "\<And>k. close_fault h k = None"
  shows "\<exists>ctl. createPseudoStream h cfg T rid m = Some (None, ctl)
           \<and> concat (contents (queue ctl)) = T
           \<and> int (length (contents (queue ctl))) = \<lceil>real (length T) / real C\<rceil>"
proof -
  have c: "1 \<le> int C" using assms(2) by simp
  obtain es ts where
    run: "createPseudoStream h cfg T rid m =
           Some (None, \<lparr>queue = es @ [Chunk rid (Some ts) m None (Some ''stop''), DoneMarker],
                        is_closed = True, calls = length es + 2\<rparr>)"
    and cat: "concat (contents es) = T"
    and len: "length (contents es) = nat ((int (length T) + int C - 1) div int C)"
    using create_run [OF assms(1) c assms(3,4), of T rid m] by blast
  have "0 \<le> (int (length T) + int C - 1) div int C"
    using c by (simp add: pos_imp_zdiv_nonneg_iff)
  then have "int (length (contents es)) = \<lceil>real (length T) / real C\<rceil>"
    using len ceil_div_real [of "int C" "int (length T)"] c by simp
  with run cat show ?thesis
    by (simp add: contents_terminal)
qed

text \<open>
  C1 at the scenario of the specification: chunk size 2, delay 0, text \<^verbatim>\<open>abcd\<close>. The
  content chunks are \<^verbatim>\<open>ab\<close> then \<^verbatim>\<open>cd\<close>, and nothing else carries content.
\<close>

theorem emitter_reassembles_text_abcd:
  "(\<exists>ctl. createPseudoStream quiet_host
            (CONFIG [''PSEUDO_STREAM_CHUNK_SIZE'' \<mapsto> ''2'', ''PSEUDO_STREAM_DELAY_MS'' \<mapsto> ''0''])
            ''abcd'' ''req-1'' (JStr ''m'') = Some (None, ctl)
      \<and> concat (contents (queue ctl)) = ''abcd''
      \<and> int (length (contents (queue ctl))) = \<lceil>real (length ''abcd'') / real (2::nat)\<rceil>)
   \<and> map_option (contents \<circ> queue \<circ> snd)
        (createPseudoStream quiet_host
           (CONFIG [''PSEUDO_STREAM_CHUNK_SIZE'' \<mapsto> ''2'', ''PSEUDO_STREAM_DELAY_MS'' \<mapsto> ''0''])
           ''abcd'' ''req-1'' (JStr ''m''))
      = Some [''ab'', ''cd'']"
proof -
  let ?cfg = "CONFIG [''PSEUDO_STREAM_CHUNK_SIZE'' \<mapsto> ''2'', ''PSEUDO_STREAM_DELAY_MS'' \<mapsto> ''0'']"
  have cs: "PSEUDO_STREAM_CHUNK_SIZE ?cfg = Num (int 2)"
    by (simp add: config_eval)
  have nf: "\<And>k. fault quiet_host k = None" and nc: "\<And>k. close_fault quiet_host k = None"
    by (simp_all add: quiet_host_def)
  have "map_option (contents \<circ> queue \<circ> snd)
          (createPseudoStream quiet_host ?cfg ''abcd'' ''req-1'' (JStr ''m'')) = Some [''ab'', ''cd'']"
    by (simp add: cs emit_eval quiet_host_def)
  with emitter_reassembles_text [OF cs _ nf nc, of "''abcd''" "''req-1''" "JStr ''m''"]
  show ?thesis by simp
qed

text \<open>
  C2. For every text \<open>T\<close> and every configured chunk size of at least 1, on a host where
  no call fails, the queue of the closed stream is a run of content chunks (each with
  \<^verbatim>\<open>finish_reason: null\<close>), then one chunk with an empty delta and
  \<^verbatim>\<open>finish_reason: "stop"\<close>, then the termination marker, and nothing after it; for the
  empty text the run of content chunks is empty.
\<close>

theorem emitter_terminal_events:
  assumes "PSEUDO_STREAM_CHUNK_SIZE cfg = Num c" and "1 \<le> c"
    and "\<And>k. fault h k = None" and "\<And>k. close_fault h k = None"
  shows "\<exists>es ts n. createPseudoStream h cfg T rid m =
           Some (None, \<lparr>queue = es @ [Chunk rid (Some ts) m None (Some ''stop''), DoneMarker],
                        is_closed = True, calls = n\<rparr>)
         \<and> (\<forall>e\<in>set es. \<exists>t s. e = Chunk rid (Some t) m (Some s) None)
         \<and> (T = [] \<longrightarrow> es = [])"
proof -
  obtain es ts where
    run: "createPseudoStream h cfg T rid m =
           Some (None, \<lparr>queue = es @ [Chunk rid (Some ts) m None (Some ''stop''), DoneMarker],
                        is_closed = True, calls = length es + 2\<rparr>)"
    and shape: "\<forall>e\<in>set es. \<exists>t s. e = Chunk rid (Some t) m (Some s) None"
    and len: "length (contents es) = nat ((int (length T) + c - 1) div c)"
    using create_run [OF assms, of T rid m] by blast
  have "es = []" if "T = []"
  proof -
    have "length (contents es) = 0"
      using len that assms(2) by simp
    then show ?thesis
      using shape by (cases es) auto
  qed
  with run shape show ?thesis by blast
qed

text \<open>C2 at the empty text and at \<^verbatim>\<open>hi\<close>, under the default configuration (chunk size 2).\<close>

theorem emitter_terminal_events_witness:
  "(\<exists>es ts n. createPseudoStream quiet_host (CONFIG (\<lambda>v. None)) '''' ''req-1'' (JStr ''m'') =
       Some (None, \<lparr>queue = es @ [Chunk ''req-1'' (Some ts) (JStr ''m'') None (Some ''stop''),
                                    DoneMarker],
                    is_closed = True, calls = n\<rparr>)
       \<and> es = [])
   \<and> createPseudoStream quiet_host (CONFIG (\<lambda>v. None)) ''hi'' ''req-1'' (JStr ''m'') =
       Some (None, \<lparr>queue = [Chunk ''req-1'' (Some 1700000000) (JStr ''m'') (Some ''hi'') None,
                              Chunk ''req-1'' (Some 1700000000) (JStr ''m'') None (Some ''stop''),
                              DoneMarker],
                    is_closed = True, calls = 3\<rparr>)"
proof -
  have cs: "PSEUDO_STREAM_CHUNK_SIZE (CONFIG (\<lambda>v. None)) = Num 2"
    by (simp add: config_eval)
  have nf: "\<And>k. fault quiet_host k = None" and nc: "\<And>k. close_fault quiet_host k = None"
    by (simp_all add: quiet_host_def)
  have "createPseudoStream quiet_host (CONFIG (\<lambda>v. None)) ''hi'' ''req-1'' (JStr ''m'') =
       Some (None, \<lparr>queue = [Chunk ''req-1'' (Some 1700000000) (JStr ''m'') (Some ''hi'') None,
                              Chunk ''req-1'' (Some 1700000000) (JStr ''m'') None (Some ''stop''),
                              DoneMarker],
                    is_closed = True, calls = 3\<rparr>)"
    by (simp add: cs emit_eval quiet_host_def)
  with emitter_terminal_events [OF cs _ nf nc, of "''''" "''req-1''" "JStr ''m''"]
  show ?thesis by simp
qed

text \<open>
  C3, as stated, fails. The second \<^verbatim>\<open>enqueue\<close> throws while \<^verbatim>\<open>abcd\<close> is emitted with chunk
  size 2: the \<^verbatim>\<open>try\<close> block is left by the exception after the chunk \<^verbatim>\<open>ab\<close>, the error
  chunk follows, the stream is closed, and the termination marker is not in the queue.
\<close>

theorem fault_path_has_no_done_marker:
  "try_block faulty_host (Num 2) ''abcd'' ''req-1'' (JStr ''m'')
       \<lparr>queue = [], is_closed = False, calls = 0\<rparr>
     = Some (Some (JsError ''Invalid state''),
         \<lparr>queue = [Chunk ''req-1'' (Some 1700000000) (JStr ''m'') (Some ''ab'') None],
          is_closed = False, calls = 2\<rparr>)
   \<and> createPseudoStream faulty_host (CONFIG (\<lambda>v. None)) ''abcd'' ''req-1'' (JStr ''m'')
     = Some (None,
         \<lparr>queue = [Chunk ''req-1'' (Some 1700000000) (JStr ''m'') (Some ''ab'') None,
                   Chunk ''req-1'' None (JStr ''m'') (Some (CHR 0x0A # ''[Stream Error]''))
                     (Some ''stop'')],
          is_closed = True, calls = 3\<rparr>)
   \<and> DoneMarker \<notin> set (queue (snd (the
         (createPseudoStream faulty_host (CONFIG (\<lambda>v. None)) ''abcd'' ''req-1'' (JStr ''m'')))))"
  by (simp add: config_eval emit_eval faulty_host_def quiet_host_def)

lemma try_block_fault_no_done:
  assumes "try_block h cs T rid m ctl0 = Some (Some e, ctl1)" "DoneMarker \<notin> set (queue ctl0)"
  shows "DoneMarker \<notin> set (queue ctl1)"
proof (cases "slice_loop h cs T rid m (Num 0) ctl0")
  case None
  with assms(1) show ?thesis by (simp add: try_block_def)
next
  case (Some y)
  obtain x ctl where y: "y = (x, ctl)" by (cases y)
  have nd: "DoneMarker \<notin> set (queue ctl)"
    using slice_loop_queue_done [OF Some] assms(2) y by simp
  show ?thesis
  proof (cases x)
    case (Some e')
    with assms(1) \<open>slice_loop h cs T rid m (Num 0) ctl0 = Some y\<close> y nd show ?thesis
      by (simp add: try_block_def)
  next
    case None
    with assms(1) \<open>slice_loop h cs T rid m (Num 0) ctl0 = Some y\<close> y nd show ?thesis
      by (auto simp: try_block_def enqueue_def Let_def split: option.splits)
  qed
qed

text \<open>
  C3, amended. When the \<^verbatim>\<open>try\<close> block is left by an exception, and neither the
  \<^verbatim>\<open>enqueue\<close> of the error chunk nor the \<^verbatim>\<open>close\<close> that follows throws, the emitter
  appends one error chunk (content a line feed and \<^verbatim>\<open>[Stream Error]\<close>, finish reason
  \<^verbatim>\<open>stop\<close>) to what was enqueued so far and closes the stream; the termination marker is
  not among the events.
\<close>

theorem fault_gives_error_chunk_and_close:
  assumes "try_block h (PSEUDO_STREAM_CHUNK_SIZE cfg) T rid m
             \<lparr>queue = [], is_closed = False, calls = 0\<rparr> = Some (Some e, ctl1)"
    and "fault h (calls ctl1) = None"
    and "close_fault h (Suc (calls ctl1)) = None"
  shows "createPseudoStream h cfg T rid m =
           Some (None, ctl1\<lparr>queue := queue ctl1 @ [errorChunk rid m],
                             calls := Suc (calls ctl1), is_closed := True\<rparr>)
         \<and> delta_content (errorChunk rid m) = Some (CHR 0x0A # ''[Stream Error]'')
         \<and> finish_reason (errorChunk rid m) = Some ''stop''
         \<and> DoneMarker \<notin> set (queue ctl1 @ [errorChunk rid m])"
proof -
  have "DoneMarker \<notin> set (queue ctl1)"
    using try_block_fault_no_done [OF assms(1)] by simp
  then show ?thesis
    using assms
    by (simp add: createPseudoStream_def enqueue_def close_finally_def errorChunk_def Let_def)
qed

text \<open>C3, amended, at the run of the counterexample.\<close>

theorem fault_gives_error_chunk_and_close_witness:
  "createPseudoStream faulty_host (CONFIG (\<lambda>v. None)) ''abcd'' ''req-1'' (JStr ''m'') =
     Some (None, \<lparr>queue = [Chunk ''req-1'' (Some 1700000000) (JStr ''m'') (Some ''ab'') None,
                            errorChunk ''req-1'' (JStr ''m'')],
                  is_closed = True, calls = 3\<rparr>)"
proof -
  let ?ctl1 = "\<lparr>queue = [Chunk ''req-1'' (Some 1700000000) (JStr ''m'') (Some ''ab'') None],
                is_closed = False, calls = 2\<rparr>"
  have t: "try_block faulty_host (PSEUDO_STREAM_CHUNK_SIZE (CONFIG (\<lambda>v. None))) ''abcd''
             ''req-1'' (JStr ''m'') \<lparr>queue = [], is_closed = False, calls = 0\<rparr>
           = Some (Some (JsError ''Invalid state''), ?ctl1)"
    by (simp add: config_eval emit_eval faulty_host_def quiet_host_def)
  have f: "fault faulty_host (calls ?ctl1) = None"
    and g: "close_fault faulty_host (Suc (calls ?ctl1)) = None"
    by (simp_all add: faulty_host_def quiet_host_def)
  from fault_gives_error_chunk_and_close [OF t f g] show ?thesis by simp
qed

text \<open>
  C4, as stated, fails. With \<^verbatim>\<open>PSEUDO_STREAM_CHUNK_SIZE=0\<close> in the environment the
  configuration is built with chunk size 0, and on the text \<^verbatim>\<open>a\<close> the emitter never
  finishes.
\<close>

theorem zero_chunk_size_accepted_and_loops:
  "PSEUDO_STREAM_CHUNK_SIZE (CONFIG [''PSEUDO_STREAM_CHUNK_SIZE'' \<mapsto> ''0'']) = Num 0
   \<and> createPseudoStream quiet_host (CONFIG [''PSEUDO_STREAM_CHUNK_SIZE'' \<mapsto> ''0''])
       ''a'' ''req-1'' (JStr ''m'') = None"
proof -
  have cs: "PSEUDO_STREAM_CHUNK_SIZE (CONFIG [''PSEUDO_STREAM_CHUNK_SIZE'' \<mapsto> ''0'']) = Num 0"
    by (simp add: config_eval)
  have "slice_loop quiet_host (Num 0) ''a'' ''req-1'' (JStr ''m'') (Num 0)
          \<lparr>queue = [], is_closed = False, calls = 0\<rparr> = None"
    by (rule slice_loop_forever) (simp_all add: quiet_host_def)
  then show ?thesis
    using cs by (simp add: createPseudoStream_def try_block_def)
qed

text \<open>
  C4, amended. For every configuration whose chunk size is an integer of at least 1, the
  emitter finishes for every input text, on every host.
\<close>

theorem slicing_terminates_for_positive_chunk_size:
  assumes "PSEUDO_STREAM_CHUNK_SIZE cfg = Num c" and "1 \<le> c"
  shows "\<exists>r. createPseudoStream h cfg T rid m = Some r"
proof -
  obtain r where "slice_loop h (Num c) T rid m (Num 0)
                    \<lparr>queue = [], is_closed = False, calls = 0\<rparr> = Some r"
    using slice_loop_returns [OF assms(2)] by blast
  then show ?thesis
    using assms(1)
    by (auto simp: createPseudoStream_def try_block_def Let_def split: option.splits prod.splits)
qed

text \<open>C4, amended, under the default configuration (chunk size 2).\<close>

theorem slicing_terminates_for_positive_chunk_size_witness:
  "\<exists>r. createPseudoStream quiet_host (CONFIG (\<lambda>v. None)) ''abcd'' ''req-1'' (JStr ''m'') = Some r"
proof -
  have cs: "PSEUDO_STREAM_CHUNK_SIZE (CONFIG (\<lambda>v. None)) = Num 2"
    by (simp add: config_eval)
  from slicing_terminates_for_positive_chunk_size [OF cs] show ?thesis by simp
qed

section \<open>The dispatcher\<close>

lemma bearer_mismatch:
  "a \<noteq> ''Bearer '' @ k \<Longrightarrow> a = [] \<or> take 7 a \<noteq> ''Bearer '' \<or> drop 7 a \<noteq> k"
  by (metis append_take_drop_id)

lemma get_prop_defined: "rd \<noteq> JNull \<Longrightarrow> \<exists>v. get_prop h rd p = Inr v"
  by (cases rd) simp_all

lemma get_prop_Inr: "get_prop h rd p = Inr v \<Longrightarrow> rd \<noteq> JNull"
  by (cases rd) simp_all

lemma default_key: "API_MASTER_KEY (CONFIG (\<lambda>v. None)) = ''default-unsafe-key''"
  by (simp add: CONFIG_def env_or_def)

text \<open>Without the exact bearer credential a request that is not a preflight stops at the check.\<close>

lemma proxy_unauthorized:
  assumes "req_method req \<noteq> ''OPTIONS''"
    and "authorization req \<noteq> Some (''Bearer '' @ API_MASTER_KEY cfg)"
  shows "handleApiProxy h cfg req =
           (Inr (errorResponse ''Unauthorized'' 401 ''invalid_api_key''
                  (responseHeaders_init (randomUUID h))), [])"
proof (cases "authorization req")
  case None
  with assms(1) show ?thesis by (simp add: handleApiProxy_def Let_def)
next
  case (Some a)
  with assms(2) have "a = [] \<or> take 7 a \<noteq> ''Bearer '' \<or> drop 7 a \<noteq> API_MASTER_KEY cfg"
    by (intro bearer_mismatch) simp
  with Some assms(1) show ?thesis by (auto simp: handleApiProxy_def Let_def)
qed

text \<open>An authenticated \<^verbatim>\<open>POST /v1/chat/completions\<close> is answered by the chat handler.\<close>

lemma proxy_chat:
  assumes "req_method req = ''POST''" "pathname req = ''/v1/chat/completions''"
    and "authorization req = Some (''Bearer '' @ API_MASTER_KEY cfg)"
  shows "serve_fetch h cfg req =
     (case handleChatCompletions h cfg req (randomUUID h) (responseHeaders_init (randomUUID h)) of
        (Inr r, sent) \<Rightarrow> (r, sent)
      | (Inl error, sent) \<Rightarrow>
          (errorResponse (''Internal Server Error: '' @ message error) 500
             ''internal_server_error'' [], sent))"
  using assms by (simp add: serve_fetch_def handleApiProxy_def Let_def)

lemma chat_bad_json:
  assumes "body_json req = None"
  shows "handleChatCompletions h cfg req rid hdrs =
           (Inr (errorResponse ''Invalid JSON body'' 400 ''invalid_request_error'' hdrs), [])"
  using assms by (simp add: handleChatCompletions_def)

lemma chat_reads_flags:
  assumes "get_prop h rd ''messages'' = Inr msgs"
  shows "\<exists>s md. get_prop h rd ''stream'' = Inr s \<and> get_prop h rd ''model'' = Inr md"
proof -
  have "rd \<noteq> JNull" using assms by (rule get_prop_Inr)
  then show ?thesis using get_prop_defined by blast
qed

lemma chat_rejects_empty:
  assumes "body_json req = Some rd" and "get_prop h rd ''messages'' = Inr msgs"
    and "js_length (js_or msgs (JArr [])) = Some (JNum 0)"
  shows "handleChatCompletions h cfg req rid hdrs =
           (Inr (errorResponse ''Missing 'messages' field'' 400 ''invalid_request_error'' hdrs), [])"
proof -
  obtain s md where "get_prop h rd ''stream'' = Inr s" "get_prop h rd ''model'' = Inr md"
    using chat_reads_flags [OF assms(2)] by blast
  then show ?thesis
    using assms by (simp add: handleChatCompletions_def chat_try_def Let_def)
qed

text \<open>The three ways in which the backend fails a request that was sent.\<close>

lemma chat_network_failure:
  assumes "body_json req = Some rd" and "get_prop h rd ''messages'' = Inr msgs"
    and "js_length (js_or msgs (JArr [])) \<noteq> Some (JNum 0)"
    and "upstream h (upstreamCall cfg rid (upstreamPayload (js_or msgs (JArr []))))
           = NetworkFailure e"
  shows "handleChatCompletions h cfg req rid hdrs =
           (Inr (errorResponse (''Processing failed: '' @ message e) 502 ''api_error'' hdrs),
            [upstreamCall cfg rid (upstreamPayload (js_or msgs (JArr [])))])"
proof -
  obtain s md where "get_prop h rd ''stream'' = Inr s" "get_prop h rd ''model'' = Inr md"
    using chat_reads_flags [OF assms(2)] by blast
  then show ?thesis
    using assms by (simp add: handleChatCompletions_def chat_try_def Let_def)
qed

lemma chat_status_error:
  assumes "body_json req = Some rd" and "get_prop h rd ''messages'' = Inr msgs"
    and "js_length (js_or msgs (JArr [])) \<noteq> Some (JNum 0)"
    and "upstream h (upstreamCall cfg rid (upstreamPayload (js_or msgs (JArr []))))
           = UpstreamResponse st (Inr t) j"
    and "\<not> (200 \<le> st \<and> st \<le> 299)"
  shows "handleChatCompletions h cfg req rid hdrs =
           (Inr (errorResponse (''Upstream error: '' @ t) 502
                   (''upstream_'' @ number_to_string st) hdrs),
            [upstreamCall cfg rid (upstreamPayload (js_or msgs (JArr [])))])"
proof -
  obtain s md where "get_prop h rd ''stream'' = Inr s" "get_prop h rd ''model'' = Inr md"
    using chat_reads_flags [OF assms(2)] by blast
  then show ?thesis
    using assms by (simp add: handleChatCompletions_def chat_try_def Let_def)
qed

lemma chat_contract_violation:
  assumes "body_json req = Some rd" and "get_prop h rd ''messages'' = Inr msgs"
    and "js_length (js_or msgs (JArr [])) \<noteq> Some (JNum 0)"
    and "upstream h (upstreamCall cfg rid (upstreamPayload (js_or msgs (JArr []))))
           = UpstreamResponse st tx (Inr d)"
    and "200 \<le> st \<and> st \<le> 299"
    and "\<And>s. get_prop h d ''summary'' \<noteq> Inr (Some (JStr s))"
  shows "\<exists>msg. handleChatCompletions h cfg req rid hdrs =
           (Inr (errorResponse (''Processing failed: '' @ msg) 502 ''api_error'' hdrs),
            [upstreamCall cfg rid (upstreamPayload (js_or msgs (JArr [])))])"
proof -
  obtain s md where p: "get_prop h rd ''stream'' = Inr s" "get_prop h rd ''model'' = Inr md"
    using chat_reads_flags [OF assms(2)] by blast
  show ?thesis
  proof (cases "get_prop h d ''summary''")
    case (Inl e)
    with assms p have "handleChatCompletions h cfg req rid hdrs =
           (Inr (errorResponse (''Processing failed: '' @ message e) 502 ''api_error'' hdrs),
            [upstreamCall cfg rid (upstreamPayload (js_or msgs (JArr [])))])"
      by (simp add: handleChatCompletions_def chat_try_def Let_def)
    then show ?thesis by blast
  next
    case (Inr v)
    with assms(6) have "\<And>s. v \<noteq> Some (JStr s)" by simp
    with Inr assms p have "handleChatCompletions h cfg req rid hdrs =
           (Inr (errorResponse
                   (''Processing failed: '' @ ''Upstream response missing 'summary' field.'')
                   502 ''api_error'' hdrs),
            [upstreamCall cfg rid (upstreamPayload (js_or msgs (JArr [])))])"
      by (simp add: handleChatCompletions_def chat_try_def Let_def
               split: option.split json.split)
    then show ?thesis by blast
  qed
qed

lemma hello_messages:
  "get_prop h hello ''messages''
     = Inr (Some (JArr [JObj [(''role'', JStr ''user''), (''content'', JStr ''hi'')]]))"
  by (simp add: hello_def)

lemma hello_passes:
  "js_length (js_or (Some (JArr [JObj [(''role'', JStr ''user''), (''content'', JStr ''hi'')]]))
                (JArr [])) \<noteq> Some (JNum 0)"
  by (simp add: js_or_def)

text \<open>
  C5, as stated, fails: the codes are not distinct per failure kind. A backend that cannot
  be reached and a backend that answers 200 without a \<^verbatim>\<open>summary\<close> both give status 502
  with the same code \<^verbatim>\<open>api_error\<close>.
\<close>

theorem unreachable_and_contract_violation_share_code:
  "status (fst (serve_fetch quiet_host (CONFIG (\<lambda>v. None)) (chat_request (Some hello)))) = 502
   \<and> status (fst (serve_fetch contract_host (CONFIG (\<lambda>v. None)) (chat_request (Some hello)))) = 502
   \<and> err_code (body (fst (serve_fetch quiet_host (CONFIG (\<lambda>v. None)) (chat_request (Some hello)))))
       = ''api_error''
   \<and> err_code (body (fst (serve_fetch contract_host (CONFIG (\<lambda>v. None)) (chat_request (Some hello)))))
       = ''api_error''"
  by (simp add: serve_fetch_def handleApiProxy_def handleChatCompletions_def chat_try_def
        errorResponse_def js_or_def default_key chat_request_def hello_def
        quiet_host_def contract_host_def Let_def)

text \<open>
  C5, amended. For an authenticated chat request that passes validation, each of the three
  failures of the backend is answered with status 502: a transport failure with code
  \<^verbatim>\<open>api_error\<close>; a status outside 200..299 (whose body text can be read) with code
  \<^verbatim>\<open>upstream_\<close> followed by the status, which differs from \<^verbatim>\<open>api_error\<close>; a status in
  200..299 whose parsed body has no string \<^verbatim>\<open>summary\<close> with code \<^verbatim>\<open>api_error\<close> again.
\<close>

theorem upstream_failures_surface_as_502:
  assumes "req_method req = ''POST''" and "pathname req = ''/v1/chat/completions''"
    and "authorization req = Some (''Bearer '' @ API_MASTER_KEY cfg)"
    and "body_json req = Some rd" and "get_prop h rd ''messages'' = Inr msgs"
    and "js_length (js_or msgs (JArr [])) \<noteq> Some (JNum 0)"
  shows "(\<forall>e. upstream h (upstreamCall cfg (randomUUID h) (upstreamPayload (js_or msgs (JArr []))))
               = NetworkFailure e
            \<longrightarrow> status (fst (serve_fetch h cfg req)) = 502
              \<and> err_code (body (fst (serve_fetch h cfg req))) = ''api_error'')
       \<and> (\<forall>st t j. upstream h (upstreamCall cfg (randomUUID h) (upstreamPayload (js_or msgs (JArr []))))
               = UpstreamResponse st (Inr t) j \<and> \<not> (200 \<le> st \<and> st \<le> 299)
            \<longrightarrow> status (fst (serve_fetch h cfg req)) = 502
              \<and> err_code (body (fst (serve_fetch h cfg req))) = ''upstream_'' @ number_to_string st
              \<and> err_code (body (fst (serve_fetch h cfg req))) \<noteq> ''api_error'')
       \<and> (\<forall>st tx d. upstream h (upstreamCall cfg (randomUUID h) (upstreamPayload (js_or msgs (JArr []))))
               = UpstreamResponse st tx (Inr d) \<and> 200 \<le> st \<and> st \<le> 299
               \<and> (\<forall>s. get_prop h d ''summary'' \<noteq> Inr (Some (JStr s)))
            \<longrightarrow> status (fst (serve_fetch h cfg req)) = 502
              \<and> err_code (body (fst (serve_fetch h cfg req))) = ''api_error'')"
proof (intro conjI allI impI)
  fix e
  assume "upstream h (upstreamCall cfg (randomUUID h) (upstreamPayload (js_or msgs (JArr []))))
            = NetworkFailure e"
  from chat_network_failure [OF assms(4-6) this]
  show "status (fst (serve_fetch h cfg req)) = 502"
    and "err_code (body (fst (serve_fetch h cfg req))) = ''api_error''"
    by (simp_all add: proxy_chat [OF assms(1-3)] errorResponse_def)
next
  fix st t j
  assume a: "upstream h (upstreamCall cfg (randomUUID h) (upstreamPayload (js_or msgs (JArr []))))
            = UpstreamResponse st (Inr t) j \<and> \<not> (200 \<le> st \<and> st \<le> 299)"
  from chat_status_error [OF assms(4-6) conjunct1 [OF a] conjunct2 [OF a]]
  show "status (fst (serve_fetch h cfg req)) = 502"
    and "err_code (body (fst (serve_fetch h cfg req))) = ''upstream_'' @ number_to_string st"
    and "err_code (body (fst (serve_fetch h cfg req))) \<noteq> ''api_error''"
    by (simp_all add: proxy_chat [OF assms(1-3)] errorResponse_def)
next
  fix st tx d
  assume a: "upstream h (upstreamCall cfg (randomUUID h) (upstreamPayload (js_or msgs (JArr []))))
            = UpstreamResponse st tx (Inr d) \<and> 200 \<le> st \<and> st \<le> 299
            \<and> (\<forall>s. get_prop h d ''summary'' \<noteq> Inr (Some (JStr s)))"
  have u: "upstream h (upstreamCall cfg (randomUUID h) (upstreamPayload (js_or msgs (JArr []))))
            = UpstreamResponse st tx (Inr d)"
    and ok: "200 \<le> st \<and> st \<le> 299"
    and ns: "\<And>s. get_prop h d ''summary'' \<noteq> Inr (Some (JStr s))"
    using a by blast+
  from chat_contract_violation [OF assms(4-6) u ok ns]
  have "\<exists>msg. handleChatCompletions h cfg req (randomUUID h)
                      (responseHeaders_init (randomUUID h)) =
           (Inr (errorResponse (''Processing failed: '' @ msg) 502 ''api_error''
                   (responseHeaders_init (randomUUID h))),
            [upstreamCall cfg (randomUUID h) (upstreamPayload (js_or msgs (JArr [])))])" .
  then show "status (fst (serve_fetch h cfg req)) = 502"
    and "err_code (body (fst (serve_fetch h cfg req))) = ''api_error''"
    by (auto simp: proxy_chat [OF assms(1-3)] errorResponse_def)
qed

text \<open>C5, amended, at one backend of each kind: unreachable, status 503, no \<^verbatim>\<open>summary\<close>.\<close>

theorem upstream_failures_surface_as_502_witness:
  "status (fst (serve_fetch quiet_host (CONFIG (\<lambda>v. None)) (chat_request (Some hello)))) = 502
   \<and> err_code (body (fst (serve_fetch quiet_host (CONFIG (\<lambda>v. None)) (chat_request (Some hello)))))
       = ''api_error''
   \<and> status (fst (serve_fetch (status_host 503 ''busy'') (CONFIG (\<lambda>v. None))
                     (chat_request (Some hello)))) = 502
   \<and> err_code (body (fst (serve_fetch (status_host 503 ''busy'') (CONFIG (\<lambda>v. None))
                     (chat_request (Some hello))))) = ''upstream_503''
   \<and> status (fst (serve_fetch contract_host (CONFIG (\<lambda>v. None)) (chat_request (Some hello)))) = 502
   \<and> err_code (body (fst (serve_fetch contract_host (CONFIG (\<lambda>v. None)) (chat_request (Some hello)))))
       = ''api_error''"
proof -
  let ?cfg = "CONFIG (\<lambda>v. None)"
  let ?req = "chat_request (Some hello)"
  have r: "req_method ?req = ''POST''" "pathname ?req = ''/v1/chat/completions''"
    "authorization ?req = Some (''Bearer '' @ API_MASTER_KEY ?cfg)" "body_json ?req = Some hello"
    by (simp_all add: chat_request_def default_key)
  have n: "number_to_string 503 = ''503''"
    by code_simp
  have s: "\<forall>s. get_prop contract_host (JObj []) ''summary'' \<noteq> Inr (Some (JStr s))"
    by simp
  show ?thesis
    using upstream_failures_surface_as_502 [OF r hello_messages hello_passes, of quiet_host]
      upstream_failures_surface_as_502 [OF r hello_messages hello_passes, of "status_host 503 ''busy''"]
      upstream_failures_surface_as_502 [OF r hello_messages hello_passes, of contract_host]
    by (simp add: quiet_host_def status_host_def contract_host_def n s)
qed

text \<open>
  C6. A request to \<^verbatim>\<open>/v1/models\<close> or \<^verbatim>\<open>/v1/chat/completions\<close> that is not a preflight and
  whose \<^verbatim>\<open>Authorization\<close> header is anything but \<^verbatim>\<open>Bearer\<close>, a space and the configured
  secret (absent, another scheme, another token) is answered 401, and nothing is sent
  upstream.
\<close>

theorem bad_credentials_get_401:
  assumes "req_method req \<noteq> ''OPTIONS''"
    and "pathname req = ''/v1/models'' \<or> pathname req = ''/v1/chat/completions''"
    and "authorization req \<noteq> Some (''Bearer '' @ API_MASTER_KEY cfg)"
  shows "status (fst (serve_fetch h cfg req)) = 401
         \<and> body (fst (serve_fetch h cfg req))
             = ErrorBody ''Unauthorized'' ''api_error'' ''invalid_api_key''
         \<and> snd (serve_fetch h cfg req) = []"
proof -
  have "take 4 (pathname req) = ''/v1/''"
    using assms(2) by auto
  then show ?thesis
    using proxy_unauthorized [OF assms(1,3)]
    by (simp add: serve_fetch_def errorResponse_def)
qed

text \<open>C6 at a wrong token, at another scheme and at a missing header.\<close>

theorem bad_credentials_get_401_witness:
  "status (fst (serve_fetch quiet_host (CONFIG (\<lambda>v. None))
       ((chat_request (Some hello))\<lparr>authorization := Some ''Bearer wrong-key''\<rparr>))) = 401
   \<and> snd (serve_fetch quiet_host (CONFIG (\<lambda>v. None))
       ((chat_request (Some hello))\<lparr>authorization := Some ''Bearer wrong-key''\<rparr>)) = []
   \<and> status (fst (serve_fetch quiet_host (CONFIG (\<lambda>v. None))
       ((chat_request (Some hello))\<lparr>authorization := Some ''Basic default-unsafe-key''\<rparr>))) = 401
   \<and> status (fst (serve_fetch quiet_host (CONFIG (\<lambda>v. None))
       \<lparr>req_method = ''GET'', pathname = ''/v1/models'', authorization = None,
        body_json = None\<rparr>)) = 401"
  using bad_credentials_get_401
      [of "(chat_request (Some hello))\<lparr>authorization := Some ''Bearer wrong-key''\<rparr>"
          "CONFIG (\<lambda>v. None)" quiet_host]
    bad_credentials_get_401
      [of "(chat_request (Some hello))\<lparr>authorization := Some ''Basic default-unsafe-key''\<rparr>"
          "CONFIG (\<lambda>v. None)" quiet_host]
    bad_credentials_get_401
      [of "\<lparr>req_method = ''GET'', pathname = ''/v1/models'', authorization = None,
            body_json = None\<rparr>" "CONFIG (\<lambda>v. None)" quiet_host]
  by (simp add: default_key chat_request_def)

text \<open>
  C7. An authenticated \<^verbatim>\<open>POST /v1/chat/completions\<close> whose body is not JSON, or whose
  parsed body has an empty array as \<^verbatim>\<open>messages\<close>, is answered 400 with code
  \<^verbatim>\<open>invalid_request_error\<close>, and nothing is sent upstream.
\<close>

theorem invalid_chat_body_rejected_before_upstream:
  assumes "req_method req = ''POST''" and "pathname req = ''/v1/chat/completions''"
    and "authorization req = Some (''Bearer '' @ API_MASTER_KEY cfg)"
    and "body_json req = None
         \<or> (\<exists>rd. body_json req = Some rd \<and> get_prop h rd ''messages'' = Inr (Some (JArr [])))"
  shows "status (fst (serve_fetch h cfg req)) = 400
         \<and> err_code (body (fst (serve_fetch h cfg req))) = ''invalid_request_error''
         \<and> snd (serve_fetch h cfg req) = []"
  using assms(4)
proof
  assume "body_json req = None"
  then show ?thesis
    by (simp add: proxy_chat [OF assms(1-3)] chat_bad_json errorResponse_def)
next
  assume "\<exists>rd. body_json req = Some rd \<and> get_prop h rd ''messages'' = Inr (Some (JArr []))"
  then obtain rd where rd: "body_json req = Some rd"
    "get_prop h rd ''messages'' = Inr (Some (JArr []))"
    by blast
  have "js_length (js_or (Some (JArr [])) (JArr [])) = Some (JNum 0)"
    by (simp add: js_or_def)
  from chat_rejects_empty [OF rd this] show ?thesis
    by (simp add: proxy_chat [OF assms(1-3)] errorResponse_def)
qed

text \<open>C7 at a body that is not JSON and at the body \<^verbatim>\<open>{"messages": []}\<close>.\<close>

theorem invalid_chat_body_rejected_before_upstream_witness:
  "status (fst (serve_fetch quiet_host (CONFIG (\<lambda>v. None)) (chat_request None))) = 400
   \<and> err_code (body (fst (serve_fetch quiet_host (CONFIG (\<lambda>v. None)) (chat_request None))))
       = ''invalid_request_error''
   \<and> snd (serve_fetch quiet_host (CONFIG (\<lambda>v. None)) (chat_request None)) = []
   \<and> status (fst (serve_fetch quiet_host (CONFIG (\<lambda>v. None))
                (chat_request (Some (JObj [(''messages'', JArr [])]))))) = 400
   \<and> err_code (body (fst (serve_fetch quiet_host (CONFIG (\<lambda>v. None))
                (chat_request (Some (JObj [(''messages'', JArr [])]))))))
       = ''invalid_request_error''
   \<and> snd (serve_fetch quiet_host (CONFIG (\<lambda>v. None))
                (chat_request (Some (JObj [(''messages'', JArr [])])))) = []"
  using invalid_chat_body_rejected_before_upstream
      [of "chat_request None" "CONFIG (\<lambda>v. None)" quiet_host]
    invalid_chat_body_rejected_before_upstream
      [of "chat_request (Some (JObj [(''messages'', JArr [])]))" "CONFIG (\<lambda>v. None)" quiet_host]
  by (simp add: default_key chat_request_def)

text \<open>
  C8. When the backend answers an authenticated, valid chat request with status 500 and a
  body text, the client receives status 502 with code \<^verbatim>\<open>upstream_500\<close> and the message
  \<^verbatim>\<open>Upstream error: \<close> followed by that text; the request was sent upstream once.
\<close>

theorem upstream_500_surfaced_as_502:
  assumes "req_method req = ''POST''" and "pathname req = ''/v1/chat/completions''"
    and "authorization req = Some (''Bearer '' @ API_MASTER_KEY cfg)"
    and "body_json req = Some rd" and "get_prop h rd ''messages'' = Inr msgs"
    and "js_length (js_or msgs (JArr [])) \<noteq> Some (JNum 0)"
    and "upstream h (upstreamCall cfg (randomUUID h) (upstreamPayload (js_or msgs (JArr []))))
           = UpstreamResponse 500 (Inr errorText) j"
  shows "status (fst (serve_fetch h cfg req)) = 502
         \<and> body (fst (serve_fetch h cfg req))
             = ErrorBody (''Upstream error: '' @ errorText) ''api_error'' ''upstream_500''
         \<and> snd (serve_fetch h cfg req)
             = [upstreamCall cfg (randomUUID h) (upstreamPayload (js_or msgs (JArr [])))]"
proof -
  have n: "number_to_string 500 = ''500''"
    by code_simp
  have "\<not> (200 \<le> (500::nat) \<and> (500::nat) \<le> 299)"
    by simp
  from chat_status_error [OF assms(4-7) this] show ?thesis
    by (simp add: proxy_chat [OF assms(1-3)] errorResponse_def n)
qed

text \<open>C8 at a backend that answers 500 with the text \<^verbatim>\<open>backend exploded\<close>.\<close>

theorem upstream_500_surfaced_as_502_witness:
  "status (fst (serve_fetch (status_host 500 ''backend exploded'') (CONFIG (\<lambda>v. None))
                  (chat_request (Some hello)))) = 502
   \<and> body (fst (serve_fetch (status_host 500 ''backend exploded'') (CONFIG (\<lambda>v. None))
                  (chat_request (Some hello))))
       = ErrorBody ''Upstream error: backend exploded'' ''api_error'' ''upstream_500''"
proof -
  let ?cfg = "CONFIG (\<lambda>v. None)"
  let ?req = "chat_request (Some hello)"
  have r: "req_method ?req = ''POST''" "pathname ?req = ''/v1/chat/completions''"
    "authorization ?req = Some (''Bearer '' @ API_MASTER_KEY ?cfg)" "body_json ?req = Some hello"
    by (simp_all add: chat_request_def default_key)
  have u: "upstream (status_host 500 ''backend exploded'')
             (upstreamCall ?cfg (randomUUID (status_host 500 ''backend exploded''))
               (upstreamPayload
                 (js_or (Some (JArr [JObj [(''role'', JStr ''user''), (''content'', JStr ''hi'')]]))
                    (JArr []))))
           = UpstreamResponse 500 (Inr ''backend exploded'') (Inl (JsError ''Unexpected token''))"
    by (simp add: status_host_def)
  from upstream_500_surfaced_as_502 [OF r hello_messages hello_passes u]
  show ?thesis by simp
qed

text \<open>
  C9, as stated, fails: an authenticated \<^verbatim>\<open>GET /v1/unknown\<close>, whose path matches no
  route, is answered 405 and not 404.
\<close>

theorem unknown_v1_path_gets_405:
  "status (fst (serve_fetch quiet_host (CONFIG (\<lambda>v. None))
       \<lparr>req_method = ''GET'', pathname = ''/v1/unknown'',
        authorization = Some ''Bearer default-unsafe-key'', body_json = None\<rparr>)) = 405
   \<and> err_code (body (fst (serve_fetch quiet_host (CONFIG (\<lambda>v. None))
       \<lparr>req_method = ''GET'', pathname = ''/v1/unknown'',
        authorization = Some ''Bearer default-unsafe-key'', body_json = None\<rparr>)))
       = ''method_not_allowed''"
  by (simp add: serve_fetch_def handleApiProxy_def errorResponse_def default_key Let_def)

text \<open>
  C9, amended. The two API routes are matched on the exact path and method. A request
  whose path is not \<^verbatim>\<open>/\<close> and does not start with \<^verbatim>\<open>/v1/\<close> is answered 404 with code
  \<^verbatim>\<open>not_found\<close>. An authenticated request under \<^verbatim>\<open>/v1/\<close> that is not a preflight and is
  neither \<^verbatim>\<open>GET /v1/models\<close> nor \<^verbatim>\<open>POST /v1/chat/completions\<close> (an unknown path as well as
  a known path with another method) is answered 405 with code \<^verbatim>\<open>method_not_allowed\<close>.
  Nothing is sent upstream in either case.
\<close>

theorem routing_404_and_405:
  "(take 4 (pathname req) \<noteq> ''/v1/'' \<and> pathname req \<noteq> ''/''
      \<longrightarrow> status (fst (serve_fetch h cfg req)) = 404
        \<and> err_code (body (fst (serve_fetch h cfg req))) = ''not_found''
        \<and> snd (serve_fetch h cfg req) = [])
   \<and> (take 4 (pathname req) = ''/v1/'' \<and> req_method req \<noteq> ''OPTIONS''
       \<and> authorization req = Some (''Bearer '' @ API_MASTER_KEY cfg)
       \<and> \<not> (pathname req = ''/v1/models'' \<and> req_method req = ''GET'')
       \<and> \<not> (pathname req = ''/v1/chat/completions'' \<and> req_method req = ''POST'')
      \<longrightarrow> status (fst (serve_fetch h cfg req)) = 405
        \<and> err_code (body (fst (serve_fetch h cfg req))) = ''method_not_allowed''
        \<and> snd (serve_fetch h cfg req) = [])"
proof (intro conjI impI)
  assume a: "take 4 (pathname req) \<noteq> ''/v1/'' \<and> pathname req \<noteq> ''/''"
  then show "status (fst (serve_fetch h cfg req)) = 404"
    and "err_code (body (fst (serve_fetch h cfg req))) = ''not_found''"
    and "snd (serve_fetch h cfg req) = []"
    by (simp_all add: serve_fetch_def errorResponse_def)
next
  assume a: "take 4 (pathname req) = ''/v1/'' \<and> req_method req \<noteq> ''OPTIONS''
       \<and> authorization req = Some (''Bearer '' @ API_MASTER_KEY cfg)
       \<and> \<not> (pathname req = ''/v1/models'' \<and> req_method req = ''GET'')
       \<and> \<not> (pathname req = ''/v1/chat/completions'' \<and> req_method req = ''POST'')"
  then have "handleApiProxy h cfg req =
      (Inr (errorResponse (''Method '' @ req_method req @ '' not allowed for '' @ pathname req)
              405 ''method_not_allowed'' (responseHeaders_init (randomUUID h))), [])"
    by (auto simp: handleApiProxy_def Let_def)
  with a show "status (fst (serve_fetch h cfg req)) = 405"
    and "err_code (body (fst (serve_fetch h cfg req))) = ''method_not_allowed''"
    and "snd (serve_fetch h cfg req) = []"
    by (simp_all add: serve_fetch_def errorResponse_def)
qed

text \<open>
  C9, amended, at three requests: \<^verbatim>\<open>GET /health\<close> (404), an authenticated
  \<^verbatim>\<open>DELETE /v1/models\<close> (405) and an authenticated \<^verbatim>\<open>GET /v1/unknown\<close> (405).
\<close>

theorem routing_404_and_405_witness:
  "status (fst (serve_fetch quiet_host (CONFIG (\<lambda>v. None))
       \<lparr>req_method = ''GET'', pathname = ''/health'', authorization = None,
        body_json = None\<rparr>)) = 404
   \<and> status (fst (serve_fetch quiet_host (CONFIG (\<lambda>v. None))
       \<lparr>req_method = ''DELETE'', pathname = ''/v1/models'',
        authorization = Some ''Bearer default-unsafe-key'', body_json = None\<rparr>)) = 405
   \<and> status (fst (serve_fetch quiet_host (CONFIG (\<lambda>v. None))
       \<lparr>req_method = ''GET'', pathname = ''/v1/unknown'',
        authorization = Some ''Bearer default-unsafe-key'', body_json = None\<rparr>)) = 405"
  using routing_404_and_405
      [where req = "\<lparr>req_method = ''GET'', pathname = ''/health'', authorization = None,
            body_json = None\<rparr>" and h = quiet_host and cfg = "CONFIG (\<lambda>v. None)"]
    routing_404_and_405
      [where req = "\<lparr>req_method = ''DELETE'', pathname = ''/v1/models'',
            authorization = Some ''Bearer default-unsafe-key'', body_json = None\<rparr>"
         and h = quiet_host and cfg = "CONFIG (\<lambda>v. None)"]
    routing_404_and_405
      [where req = "\<lparr>req_method = ''GET'', pathname = ''/v1/unknown'',
            authorization = Some ''Bearer default-unsafe-key'', body_json = None\<rparr>"
         and h = quiet_host and cfg = "CONFIG (\<lambda>v. None)"]
  by (simp add: default_key)

text \<open>
  C10. An authenticated \<^verbatim>\<open>POST /v1/chat/completions\<close> whose parsed body is not
  \<^verbatim>\<open>null\<close> and has no \<^verbatim>\<open>messages\<close> member, or has \<^verbatim>\<open>null\<close> there, gets the very
  response of the same request with the body \<^verbatim>\<open>{"messages": []}\<close>: status 400, code
  \<^verbatim>\<open>invalid_request_error\<close>, nothing sent upstream.
\<close>

theorem missing_messages_treated_as_empty:
  assumes "req_method req = ''POST''" and "pathname req = ''/v1/chat/completions''"
    and "authorization req = Some (''Bearer '' @ API_MASTER_KEY cfg)"
    and "body_json req = Some rd"
    and "get_prop h rd ''messages'' = Inr None \<or> get_prop h rd ''messages'' = Inr (Some JNull)"
  shows "serve_fetch h cfg req
           = serve_fetch h cfg (req\<lparr>body_json := Some (JObj [(''messages'', JArr [])])\<rparr>)
         \<and> status (fst (serve_fetch h cfg req)) = 400
         \<and> err_code (body (fst (serve_fetch h cfg req))) = ''invalid_request_error''
         \<and> snd (serve_fetch h cfg req) = []"
proof -
  let ?req' = "req\<lparr>body_json := Some (JObj [(''messages'', JArr [])])\<rparr>"
  let ?resp = "errorResponse ''Missing 'messages' field'' 400 ''invalid_request_error''
                 (responseHeaders_init (randomUUID h))"
  obtain msgs where m: "get_prop h rd ''messages'' = Inr msgs" "msgs = None \<or> msgs = Some JNull"
    using assms(5) by blast
  then have "js_length (js_or msgs (JArr [])) = Some (JNum 0)"
    by (auto simp: js_or_def)
  from chat_rejects_empty [OF assms(4) m(1) this]
  have a: "serve_fetch h cfg req = (?resp, [])"
    by (simp add: proxy_chat [OF assms(1-3)])
  have "js_length (js_or (Some (JArr [])) (JArr [])) = Some (JNum 0)"
    by (simp add: js_or_def)
  from chat_rejects_empty [of ?req' "JObj [(''messages'', JArr [])]" h "Some (JArr [])", OF _ _ this]
  have b: "serve_fetch h cfg ?req' = (?resp, [])"
    using assms(1-3) by (simp add: proxy_chat)
  show ?thesis
    using a b by (simp add: errorResponse_def)
qed

text \<open>C10 at the bodies \<^verbatim>\<open>{"model": "x"}\<close> and \<^verbatim>\<open>{"messages": null}\<close>.\<close>

theorem missing_messages_treated_as_empty_witness:
  "serve_fetch quiet_host (CONFIG (\<lambda>v. None)) (chat_request (Some (JObj [(''model'', JStr ''x'')])))
     = serve_fetch quiet_host (CONFIG (\<lambda>v. None))
         (chat_request (Some (JObj [(''messages'', JArr [])])))
   \<and> status (fst (serve_fetch quiet_host (CONFIG (\<lambda>v. None))
         (chat_request (Some (JObj [(''model'', JStr ''x'')]))))) = 400
   \<and> serve_fetch quiet_host (CONFIG (\<lambda>v. None))
         (chat_request (Some (JObj [(''messages'', JNull)])))
     = serve_fetch quiet_host (CONFIG (\<lambda>v. None))
         (chat_request (Some (JObj [(''messages'', JArr [])])))
   \<and> snd (serve_fetch quiet_host (CONFIG (\<lambda>v. None))
         (chat_request (Some (JObj [(''messages'', JNull)])))) = []"
proof -
  let ?cfg = "CONFIG (\<lambda>v. None)"
  have upd: "\<And>b b'. (chat_request b)\<lparr>body_json := b'\<rparr> = chat_request b'"
    by (simp add: chat_request_def)
  have r: "\<And>b. req_method (chat_request b) = ''POST''"
    "\<And>b. pathname (chat_request b) = ''/v1/chat/completions''"
    "\<And>b. authorization (chat_request b) = Some (''Bearer '' @ API_MASTER_KEY ?cfg)"
    "\<And>b. body_json (chat_request b) = b"
    by (simp_all add: chat_request_def default_key)
  have absent: "get_prop quiet_host (JObj [(''model'', JStr ''x'')]) ''messages'' = Inr None
      \<or> get_prop quiet_host (JObj [(''model'', JStr ''x'')]) ''messages'' = Inr (Some JNull)"
    by simp
  have null: "get_prop quiet_host (JObj [(''messages'', JNull)]) ''messages'' = Inr None
      \<or> get_prop quiet_host (JObj [(''messages'', JNull)]) ''messages'' = Inr (Some JNull)"
    by simp
  from missing_messages_treated_as_empty [OF r absent] missing_messages_treated_as_empty [OF r null]
  show ?thesis
    unfolding upd by blast
qed


end
